theory Spec2Isabelle
  imports Main
begin

section \<open>Python values\<close>

text \<open>
  A Python \<open>str\<close> is a sequence of Unicode code points; a code point is a natural
  number below \<open>0x110000\<close>. The source's ASCII literals are written \<open>py ''apple''\<close>.
\<close>

type_synonym pystr = "nat list"

definition py :: "string \<Rightarrow> pystr" where
  "py cs = map of_char cs"

text \<open>
  The exceptions that the operations modelled here raise. \<open>FileNotFoundError\<close> and
  \<open>IsADirectoryError\<close> are subclasses of \<open>OSError\<close>, which \<open>IOError\<close> is another name
  of; \<open>JSONDecodeError\<close> and \<open>UnicodeDecodeError\<close> are two unrelated subclasses of
  \<open>ValueError\<close>.
\<close>

datatype exn =
    KeyError
  | FileNotFoundError
  | IsADirectoryError
  | UnicodeDecodeError
  | JSONDecodeError
  | RecursionError

text \<open>
  The values the functions of \<open>inventory_system.py\<close> can be handed. \<open>add_item\<close> and
  \<open>remove_item\<close> test their arguments with \<open>isinstance\<close>, so \<open>item\<close> and \<open>qty\<close> range
  over all of them. A float is kept as its literal (float arithmetic is not modelled; the
  source only tests whether a value is one). The keys of a \<open>PyDict\<close> are strings, as the
  keys of every dict that \<open>json.load\<close> builds and of every inventory are.
\<close>

datatype pyval =
    PyNone
  | PyBool bool
  | PyInt int
  | PyFloat pystr
  | PyStr pystr
  | PyList "pyval list"
  | PyDict "(pystr \<times> pyval) list"
  | PyException exn


text \<open>\<open>isinstance(v, int)\<close>: \<open>bool\<close> is a subclass of \<open>int\<close>, so \<open>True\<close> and \<open>False\<close> pass.\<close>

fun isinstance_int :: "pyval \<Rightarrow> bool" where
  "isinstance_int (PyInt n) = True"
| "isinstance_int (PyBool b) = True"
| "isinstance_int v = False"

text \<open>The number an instance of \<open>int\<close> stands for in arithmetic: \<open>True\<close> is 1, \<open>False\<close> is 0.\<close>

fun int_value :: "pyval \<Rightarrow> int" where
  "int_value (PyInt n) = n"
| "int_value (PyBool b) = (if b then 1 else 0)"
| "int_value v = 0"

text \<open>
  The condition \<open>not isinstance(item, str) or not item\<close> of both mutators. \<open>or\<close> evaluates
  \<open>not item\<close> only for a \<open>str\<close>, which is falsy exactly when it is empty.
\<close>

fun invalid_item :: "pyval \<Rightarrow> bool" where
  "invalid_item (PyStr s) = (s = [])"
| "invalid_item v = True"

section \<open>Log records, outcomes\<close>

text \<open>
  A call \<open>logging.error(msg, *args)\<close> makes a log record of the level, the message
  template and the arguments; the module formats it later, in its handlers.
\<close>

datatype level = INFO | WARNING | ERROR

datatype log_record = LogRecord level string "pyval list"

text \<open>
  What a call of a procedure does: the state it leaves (the dict it was handed, mutated in
  place), the log records it made in order, and how it ended: \<open>Inr\<close> a returned value or
  \<open>Inl\<close> an exception that left it.
\<close>

record ('s, 'r) outcome =
  state :: 's
  logged :: "log_record list"
  ending :: "exn + 'r"

section \<open>The inventory: a dict from item names to quantities\<close>

text \<open>
  A Python dict keeps its keys in insertion order, and \<open>check_low_items\<close> returns names in
  that order, so the inventory is the list of its entries, oldest first. A dict holds a key
  once: \<open>distinct (keys d)\<close>.
\<close>

type_synonym ('k, 'v) dict = "('k \<times> 'v) list"

type_synonym stock = "(pystr, int) dict"

definition keys :: "('k, 'v) dict \<Rightarrow> 'k list" where
  "keys d = map fst d"

text \<open>\<open>d.get(k, dflt)\<close>.\<close>

fun dict_get :: "('k, 'v) dict \<Rightarrow> 'k \<Rightarrow> 'v \<Rightarrow> 'v" where
  "dict_get [] k dflt = dflt"
| "dict_get ((k', v) # d) k dflt = (if k' = k then v else dict_get d k dflt)"

text \<open>\<open>d[k]\<close> as an expression: \<open>KeyError\<close> when the key is missing.\<close>

fun dict_getitem :: "('k, 'v) dict \<Rightarrow> 'k \<Rightarrow> exn + 'v" where
  "dict_getitem [] k = Inl KeyError"
| "dict_getitem ((k', v) # d) k = (if k' = k then Inr v else dict_getitem d k)"

text \<open>\<open>d[k] = v\<close>: a key already there keeps its place, a new key goes last.\<close>

fun dict_setitem :: "('k, 'v) dict \<Rightarrow> 'k \<Rightarrow> 'v \<Rightarrow> ('k, 'v) dict" where
  "dict_setitem [] k v = [(k, v)]"
| "dict_setitem ((k', v') # d) k v =
     (if k' = k then (k', v) # d else (k', v') # dict_setitem d k v)"

text \<open>\<open>del d[k]\<close>: \<open>KeyError\<close> when the key is missing.\<close>

fun dict_delitem :: "('k, 'v) dict \<Rightarrow> 'k \<Rightarrow> exn + ('k, 'v) dict" where
  "dict_delitem [] k = Inl KeyError"
| "dict_delitem ((k', v') # d) k =
     (if k' = k then Inr d
      else (case dict_delitem d k of
              Inl e \<Rightarrow> Inl e
            | Inr d' \<Rightarrow> Inr ((k', v') # d')))"

section \<open>The mutators\<close>

text \<open>
  \<open>add_item(stock, item, qty)\<close>, lines 15 to 33: two validation returns, then
  \<open>stock[item] = stock.get(item, 0) + qty\<close> and an \<open>INFO\<close> record that reads the new
  \<open>stock[item]\<close>.
\<close>

definition add_item :: "stock \<Rightarrow> pyval \<Rightarrow> pyval \<Rightarrow> (stock, unit) outcome" where
  "add_item stock item qty =
     (if invalid_item item then
        \<lparr>state = stock,
         logged = [LogRecord ERROR
           ''Invalid item name: %s. Item must be a non-empty string.'' [item]],
         ending = Inr ()\<rparr>
      else if \<not> isinstance_int qty then
        \<lparr>state = stock,
         logged = [LogRecord ERROR
           ''Invalid quantity: %s. Quantity must be an integer.'' [qty]],
         ending = Inr ()\<rparr>
      else
        (case item of
           PyStr name \<Rightarrow>
             (let stock1 = dict_setitem stock name (dict_get stock name 0 + int_value qty)
              in (case dict_getitem stock1 name of
                    Inl e \<Rightarrow> \<lparr>state = stock1, logged = [], ending = Inl e\<rparr>
                  | Inr new_total \<Rightarrow>
                      \<lparr>state = stock1,
                       logged = [LogRecord INFO ''Added %d of %s. New total: %d''
                         [qty, item, PyInt new_total]],
                       ending = Inr ()\<rparr>))
         | _ \<Rightarrow> \<lparr>state = stock, logged = [], ending = Inr ()\<rparr>))"

text \<open>
  The body of the \<open>try\<close> block of \<open>remove_item\<close>, lines 56 to 61, for a validated
  \<open>item\<close> and \<open>qty\<close>. \<open>stock[item] -= qty\<close> reads \<open>stock[item]\<close> first, and the read
  raises \<open>KeyError\<close> for a missing key before anything is stored. The last record reads
  \<open>stock[item]\<close> once more, unchanged since the comparison read it.
\<close>

definition remove_item_try :: "stock \<Rightarrow> pystr \<Rightarrow> pyval \<Rightarrow> (stock, unit) outcome" where
  "remove_item_try stock name qty =
     (case dict_getitem stock name of
        Inl e \<Rightarrow> \<lparr>state = stock, logged = [], ending = Inl e\<rparr>
      | Inr old \<Rightarrow>
          (let stock1 = dict_setitem stock name (old - int_value qty)
           in (case dict_getitem stock1 name of
                 Inl e \<Rightarrow> \<lparr>state = stock1, logged = [], ending = Inl e\<rparr>
               | Inr new_total \<Rightarrow>
                   if new_total \<le> 0 then
                     (case dict_delitem stock1 name of
                        Inl e \<Rightarrow> \<lparr>state = stock1, logged = [], ending = Inl e\<rparr>
                      | Inr stock2 \<Rightarrow>
                          \<lparr>state = stock2,
                           logged = [LogRecord INFO
                             ''Removed %d of %s. Item removed from stock.''
                             [qty, PyStr name]],
                           ending = Inr ()\<rparr>)
                   else
                     \<lparr>state = stock1,
                      logged = [LogRecord INFO ''Removed %d of %s. New total: %d''
                        [qty, PyStr name, PyInt new_total]],
                      ending = Inr ()\<rparr>)))"

text \<open>
  \<open>remove_item(stock, item, qty)\<close>, lines 36 to 64: the validation of \<open>add_item\<close>, then
  the \<open>try\<close> block, whose handler catches \<open>KeyError\<close> only and makes a \<open>WARNING\<close> record.
\<close>

definition remove_item :: "stock \<Rightarrow> pyval \<Rightarrow> pyval \<Rightarrow> (stock, unit) outcome" where
  "remove_item stock item qty =
     (if invalid_item item then
        \<lparr>state = stock,
         logged = [LogRecord ERROR
           ''Invalid item name: %s. Item must be a non-empty string.'' [item]],
         ending = Inr ()\<rparr>
      else if \<not> isinstance_int qty then
        \<lparr>state = stock,
         logged = [LogRecord ERROR
           ''Invalid quantity: %s. Quantity must be an integer.'' [qty]],
         ending = Inr ()\<rparr>
      else
        (case item of
           PyStr name \<Rightarrow>
             (let r = remove_item_try stock name qty
              in (case ending r of
                    Inl KeyError \<Rightarrow>
                      \<lparr>state = state r,
                       logged = logged r @ [LogRecord WARNING
                         ''Attempted to remove '%s', but it is not in stock.'' [item]],
                       ending = Inr ()\<rparr>
                  | _ \<Rightarrow> r))
         | _ \<Rightarrow> \<lparr>state = stock, logged = [], ending = Inr ()\<rparr>))"

section \<open>The accessors\<close>

text \<open>\<open>get_qty(stock, item)\<close>, line 79: \<open>stock.get(item, 0)\<close> for an \<open>item: str\<close>.\<close>

definition get_qty :: "stock \<Rightarrow> pystr \<Rightarrow> int" where
  "get_qty stock item = dict_get stock item 0"

text \<open>
  The loop of \<open>check_low_items\<close>, lines 154 to 156, over \<open>stock.items()\<close> with the list
  \<open>result\<close> it appends to.
\<close>

fun check_low_items_loop :: "(pystr \<times> int) list \<Rightarrow> int \<Rightarrow> pystr list \<Rightarrow> pystr list" where
  "check_low_items_loop [] threshold result = result"
| "check_low_items_loop ((item, qty) # rest) threshold result =
     check_low_items_loop rest threshold
       (if qty < threshold then result @ [item] else result)"

text \<open>
  \<open>check_low_items(stock, threshold=5)\<close>: \<open>None\<close> is a call that leaves the threshold
  out.
\<close>

definition check_low_items :: "stock \<Rightarrow> int option \<Rightarrow> pystr list" where
  "check_low_items stock threshold =
     check_low_items_loop stock (case threshold of None \<Rightarrow> 5 | Some t \<Rightarrow> t) []"

section \<open>The \<open>json\<close> module: writing\<close>

text \<open>
  \<open>save_data\<close> calls \<open>json.dump(stock, f, indent=4)\<close>. With an indent, the module encodes
  with the generator \<open>_make_iterencode\<close> of \<open>json/encoder.py\<close>, strings with
  \<open>encode_basestring_ascii\<close> (\<open>ensure_ascii\<close> is on by default) and integers with
  \<open>int.__repr__\<close>. Characters are written by their code points: 34 is the double quote, 92
  the backslash, 117 the letter u, 10 the newline, 32 the space.
\<close>

definition hexdigit :: "nat \<Rightarrow> nat" where
  "hexdigit d = (if d < 10 then 48 + d else 87 + d)"

text \<open>\<open>'{0:04x}'.format(n)\<close> for \<open>n < 0x10000\<close>: four lower-case hexadecimal digits.\<close>

definition format_04x :: "nat \<Rightarrow> pystr" where
  "format_04x n =
     [hexdigit (n div 4096 mod 16), hexdigit (n div 256 mod 16), hexdigit (n div 16 mod 16),
      hexdigit (n mod 16)]"

text \<open>
  \<open>replace\<close> of \<open>py_encode_basestring_ascii\<close>: the entry of \<open>ESCAPE_DCT\<close> for a character
  that has one, \<open>\uXXXX\<close> for any other character below \<open>0x10000\<close>, and a surrogate pair
  above. There \<open>0xd800 | ((n >> 10) & 0x3ff)\<close> and \<open>0xdc00 | (n & 0x3ff)\<close> are sums, the
  low ten bits of \<open>0xd800\<close> and \<open>0xdc00\<close> being 0.
\<close>

definition replace :: "nat \<Rightarrow> pystr" where
  "replace c =
     (if c = 92 then [92, 92]
      else if c = 34 then [92, 34]
      else if c = 8 then [92, 98]
      else if c = 12 then [92, 102]
      else if c = 10 then [92, 110]
      else if c = 13 then [92, 114]
      else if c = 9 then [92, 116]
      else if c < 0x10000 then [92, 117] @ format_04x c
      else [92, 117] @ format_04x (0xd800 + (c - 0x10000) div 1024 mod 1024)
         @ [92, 117] @ format_04x (0xdc00 + (c - 0x10000) mod 1024))"

text \<open>
  The characters the pattern \<open>ESCAPE_ASCII\<close> matches: backslash, double quote and all
  outside the range from space to tilde.
\<close>

definition ESCAPE_ASCII :: "nat \<Rightarrow> bool" where
  "ESCAPE_ASCII c = (c = 92 \<or> c = 34 \<or> \<not> (32 \<le> c \<and> c \<le> 126))"

text \<open>\<open>ESCAPE_ASCII.sub(replace, s)\<close>.\<close>

definition escape_ascii_sub :: "pystr \<Rightarrow> pystr" where
  "escape_ascii_sub s = concat (map (\<lambda>c. if ESCAPE_ASCII c then replace c else [c]) s)"

definition encode_basestring_ascii :: "pystr \<Rightarrow> pystr" where
  "encode_basestring_ascii s = [34] @ escape_ascii_sub s @ [34]"

text \<open>The decimal digits of a natural number, and \<open>int.__repr__\<close>.\<close>

fun decimal :: "nat \<Rightarrow> pystr" where
  "decimal n = (if n < 10 then [48 + n] else decimal (n div 10) @ [48 + n mod 10])"

declare decimal.simps [simp del]

definition intstr :: "int \<Rightarrow> pystr" where
  "intstr i = (if i < 0 then 45 # decimal (nat (- i)) else decimal (nat i))"

text \<open>
  The loop of \<open>_iterencode_dict\<close> over the items of an inventory, with its flag \<open>first\<close>:
  the item separator is a comma and \<open>newline_indent\<close>, a newline and four spaces at level
  1; the key separator is a colon and a space.
\<close>

fun iterencode_items :: "bool \<Rightarrow> (pystr \<times> int) list \<Rightarrow> pystr" where
  "iterencode_items first [] = []"
| "iterencode_items first ((key, val) # items) =
     (if first then [] else [44, 10, 32, 32, 32, 32])
     @ encode_basestring_ascii key @ [58, 32] @ intstr val
     @ iterencode_items False items"


section \<open>The \<open>json\<close> module: reading\<close>

text \<open>
  \<open>load_data\<close> calls \<open>json.load(f)\<close>, which is \<open>json.loads(f.read())\<close>: the decoder of
  \<open>json/decoder.py\<close> and \<open>json/scanner.py\<close>. A position in the document is the text
  that is left from it on. Every error of the decoder is a \<open>JSONDecodeError\<close>; the scanner's
  \<open>StopIteration\<close> is turned into one by each of its callers.
\<close>


definition hexvalue :: "nat \<Rightarrow> nat option" where
  "hexvalue c =
     (if 48 \<le> c \<and> c \<le> 57 then Some (c - 48)
      else if 97 \<le> c \<and> c \<le> 102 then Some (c - 87)
      else if 65 \<le> c \<and> c \<le> 70 then Some (c - 55)
      else None)"

text \<open>\<open>_decode_uXXXX\<close> on the text after the letter u: four hexadecimal digits.\<close>

fun decode_uXXXX :: "pystr \<Rightarrow> nat option" where
  "decode_uXXXX (a # b # c # d # s) =
     (case (hexvalue a, hexvalue b, hexvalue c, hexvalue d) of
        (Some w, Some x, Some y, Some z) \<Rightarrow> Some (((w * 16 + x) * 16 + y) * 16 + z)
      | _ \<Rightarrow> None)"
| "decode_uXXXX s = None"

text \<open>The table \<open>BACKSLASH\<close> of the one-letter escapes.\<close>

definition BACKSLASH :: "nat \<Rightarrow> nat option" where
  "BACKSLASH esc =
     (if esc = 34 then Some 34
      else if esc = 92 then Some 92
      else if esc = 47 then Some 47
      else if esc = 98 then Some 8
      else if esc = 102 then Some 12
      else if esc = 110 then Some 10
      else if esc = 114 then Some 13
      else if esc = 116 then Some 9
      else None)"

text \<open>
  \<open>scanstring(s, end, strict=True)\<close> from after the opening quote, with the characters
  decoded so far: it returns the string and the text after the closing quote. A \<open>\uXXXX\<close>
  of a high surrogate that a \<open>\uXXXX\<close> of a low surrogate follows is decoded with it, as one
  character; \<open>((uni - 0xd800) << 10) | (uni2 - 0xdc00)\<close> is a sum, \<open>uni2 - 0xdc00\<close> being
  below \<open>1024\<close>.
\<close>

fun scanstring :: "pystr \<Rightarrow> pystr \<Rightarrow> exn + (pystr \<times> pystr)" where
  "scanstring chunks [] = Inl JSONDecodeError"
| "scanstring chunks (c # s) =
     (if c = 34 then Inr (chunks, s)
      else if c < 32 then Inl JSONDecodeError
      else if c \<noteq> 92 then scanstring (chunks @ [c]) s
      else
        (case s of
           [] \<Rightarrow> Inl JSONDecodeError
         | esc # s1 \<Rightarrow>
             if esc \<noteq> 117 then
               (case BACKSLASH esc of
                  None \<Rightarrow> Inl JSONDecodeError
                | Some char \<Rightarrow> scanstring (chunks @ [char]) s1)
             else
               (case decode_uXXXX s1 of
                  None \<Rightarrow> Inl JSONDecodeError
                | Some uni \<Rightarrow>
                    if 0xd800 \<le> uni \<and> uni \<le> 0xdbff \<and> take 2 (drop 4 s1) = [92, 117] then
                      (case decode_uXXXX (drop 6 s1) of
                         None \<Rightarrow> Inl JSONDecodeError
                       | Some uni2 \<Rightarrow>
                           if 0xdc00 \<le> uni2 \<and> uni2 \<le> 0xdfff then
                             scanstring
                               (chunks @ [0x10000 + ((uni - 0xd800) * 1024 + (uni2 - 0xdc00))])
                               (drop 10 s1)
                           else scanstring (chunks @ [uni]) (drop 4 s1))
                    else scanstring (chunks @ [uni]) (drop 4 s1))))"











section \<open>Files\<close>










section \<open>Persistence\<close>




section \<open>Notions the statements and proofs use\<close>

text \<open>A Python \<open>str\<close>: every element is a code point.\<close>

definition valid_str :: "pystr \<Rightarrow> bool" where
  "valid_str s = list_all (\<lambda>c. c < 0x110000) s"

definition high_surrogate :: "nat \<Rightarrow> bool" where
  "high_surrogate c = (0xd800 \<le> c \<and> c \<le> 0xdbff)"

definition low_surrogate :: "nat \<Rightarrow> bool" where
  "low_surrogate c = (0xdc00 \<le> c \<and> c \<le> 0xdfff)"

text \<open>A string in which a high surrogate is directly followed by a low surrogate.\<close>

fun surrogate_pair_in :: "pystr \<Rightarrow> bool" where
  "surrogate_pair_in (a # b # s) =
     ((high_surrogate a \<and> low_surrogate b) \<or> surrogate_pair_in (b # s))"
| "surrogate_pair_in s = False"


text \<open>The characters with an escape of one letter in \<open>ESCAPE_DCT\<close>.\<close>

definition short_escape :: "nat \<Rightarrow> bool" where
  "short_escape c = (c = 92 \<or> c = 34 \<or> c = 8 \<or> c = 12 \<or> c = 10 \<or> c = 13 \<or> c = 9)"

text \<open>What may follow the escape of a lone high surrogate: not the escape of a low one.\<close>

definition no_low_escape :: "pystr \<Rightarrow> bool" where
  "no_low_escape t =
     (take 2 t = [92, 117] \<longrightarrow> (\<exists>u. decode_uXXXX (drop 2 t) = Some u \<and> \<not> low_surrogate u))"


section \<open>Facts about dicts\<close>

lemma dict_get_map_of: "dict_get d k dflt = (case map_of d k of None \<Rightarrow> dflt | Some v \<Rightarrow> v)"
  by (induction d) auto

lemma dict_getitem_map_of:
  "dict_getitem d k = (case map_of d k of None \<Rightarrow> Inl KeyError | Some v \<Rightarrow> Inr v)"
  by (induction d) auto

lemma map_of_dict_setitem: "map_of (dict_setitem d k v) = (map_of d)(k \<mapsto> v)"
  by (induction d) auto

lemma map_of_None_keys: "map_of d k = None \<longleftrightarrow> k \<notin> set (keys d)"
  by (simp add: keys_def map_of_eq_None_iff)

lemma keys_dict_setitem:
  "keys (dict_setitem d k v) = (if k \<in> set (keys d) then keys d else keys d @ [k])"
proof (induction d)
  case Nil
  show ?case by (simp add: keys_def)
next
  case (Cons p d)
  obtain k' v' where p: "p = (k', v')" by (cases p)
  show ?case
    using Cons.IH by (simp add: keys_def p)
qed

text \<open>Storing under a key keeps the keys of a dict distinct.\<close>

lemma distinct_dict_setitem: "distinct (keys d) \<Longrightarrow> distinct (keys (dict_setitem d k v))"
  by (simp add: keys_dict_setitem)

lemma key_filtered_out: "k \<notin> set (keys (filter (\<lambda>p. fst p \<noteq> k) d))"
  by (auto simp: keys_def)

lemma map_of_filtered_out: "map_of (filter (\<lambda>p. fst p \<noteq> k) d) k = None"
  by (simp add: map_of_None_keys key_filtered_out)

lemma filter_dict_setitem:
  "filter (\<lambda>p. fst p \<noteq> k) (dict_setitem d k v) = filter (\<lambda>p. fst p \<noteq> k) d"
  by (induction d) auto

text \<open>In a dict, \<open>del d[k]\<close> of a key that is there leaves every other entry, in order.\<close>

lemma dict_delitem_present:
  "k \<in> set (keys d) \<Longrightarrow> distinct (keys d) \<Longrightarrow>
   dict_delitem d k = Inr (filter (\<lambda>p. fst p \<noteq> k) d)"
proof (induction d)
  case Nil
  then show ?case by (simp add: keys_def)
next
  case (Cons p d)
  obtain k' v' where p: "p = (k', v')" by (cases p)
  show ?case
  proof (cases "k' = k")
    case True
    with Cons.prems(2) have "\<forall>q \<in> set d. fst q \<noteq> k"
      by (auto simp: keys_def p)
    then have "filter (\<lambda>q. fst q \<noteq> k) d = d"
      by (simp add: filter_id_conv)
    with True show ?thesis by (simp add: p)
  next
    case False
    with Cons.prems have "k \<in> set (keys d)" and "distinct (keys d)"
      by (auto simp: keys_def p)
    with Cons.IH False show ?thesis by (simp add: p)
  qed
qed

lemma map_of_dict_delitem_other:
  "dict_delitem d k = Inr d' \<Longrightarrow> k' \<noteq> k \<Longrightarrow> map_of d' k' = map_of d k'"
proof (induction d arbitrary: d')
  case Nil
  then show ?case by simp
next
  case (Cons p d)
  obtain a b where p: "p = (a, b)" by (cases p)
  show ?case
  proof (cases "a = k")
    case True
    with Cons.prems show ?thesis by (simp add: p)
  next
    case False
    with Cons.prems obtain d2 where d2: "dict_delitem d k = Inr d2" and d': "d' = (a, b) # d2"
      by (auto simp: p split: sum.splits)
    from Cons.IH [OF d2 Cons.prems(2)] show ?thesis by (simp add: d' p)
  qed
qed

section \<open>What the \<open>try\<close> block of \<open>remove_item\<close> does\<close>

lemma remove_item_try_found:
  assumes "distinct (keys stock)" and "map_of stock name = Some old"
  shows "remove_item_try stock name qty =
           (if old - int_value qty \<le> 0 then
              \<lparr>state = filter (\<lambda>p. fst p \<noteq> name) stock,
               logged = [LogRecord INFO ''Removed %d of %s. Item removed from stock.''
                 [qty, PyStr name]],
               ending = Inr ()\<rparr>
            else
              \<lparr>state = dict_setitem stock name (old - int_value qty),
               logged = [LogRecord INFO ''Removed %d of %s. New total: %d''
                 [qty, PyStr name, PyInt (old - int_value qty)]],
               ending = Inr ()\<rparr>)"
proof -
  let ?s1 = "dict_setitem stock name (old - int_value qty)"
  have "distinct (keys ?s1)"
    using assms(1) by (rule distinct_dict_setitem)
  moreover have "name \<in> set (keys ?s1)"
    by (simp add: keys_dict_setitem)
  ultimately have "dict_delitem ?s1 name = Inr (filter (\<lambda>p. fst p \<noteq> name) ?s1)"
    by (rule dict_delitem_present [rotated])
  then have "dict_delitem ?s1 name = Inr (filter (\<lambda>p. fst p \<noteq> name) stock)"
    by (simp add: filter_dict_setitem)
  with assms(2) show ?thesis
    by (simp add: remove_item_try_def Let_def dict_getitem_map_of map_of_dict_setitem)
qed

lemma remove_item_try_missing:
  assumes "map_of stock name = None"
  shows "remove_item_try stock name qty = \<lparr>state = stock, logged = [], ending = Inl KeyError\<rparr>"
  using assms by (simp add: remove_item_try_def dict_getitem_map_of)

lemma remove_item_try_frame:
  assumes "k \<noteq> name"
  shows "map_of (state (remove_item_try stock name qty)) k = map_of stock k"
proof (cases "dict_getitem stock name")
  case (Inl e)
  then show ?thesis by (simp add: remove_item_try_def)
next
  case (Inr old)
  let ?s1 = "dict_setitem stock name (old - int_value qty)"
  have s1: "map_of ?s1 k = map_of stock k"
    using assms by (simp add: map_of_dict_setitem)
  show ?thesis
  proof (cases "dict_delitem ?s1 name")
    case (Inl e)
    with Inr s1 show ?thesis
      by (simp add: remove_item_try_def Let_def split: sum.splits)
  next
    case del: (Inr s2)
    have "map_of s2 k = map_of ?s1 k"
      using del assms by (rule map_of_dict_delitem_other)
    with Inr s1 del show ?thesis
      by (simp add: remove_item_try_def Let_def split: sum.splits)
  qed
qed

lemma check_low_items_loop_filter:
  "check_low_items_loop d t acc = acc @ map fst (filter (\<lambda>(item, qty). qty < t) d)"
  by (induction d t acc rule: check_low_items_loop.induct) auto

section \<open>The string scanner on an encoded string\<close>

lemma hexvalue_hexdigit: "d < 16 \<Longrightarrow> hexvalue (hexdigit d) = Some d"
  by (auto simp: hexvalue_def hexdigit_def)

lemma hex4_value:
  assumes "(n::nat) < 0x10000"
  shows "((n div 4096 mod 16 * 16 + n div 256 mod 16) * 16 + n div 16 mod 16) * 16 + n mod 16 = n"
proof -
  define a where "a = n div 16"
  define b where "b = a div 16"
  define c where "c = b div 16"
  have b: "n div 256 = b"
    unfolding b_def a_def by (simp add: div_mult2_eq [symmetric])
  have c: "n div 4096 = c"
    unfolding c_def b_def a_def by (simp add: div_mult2_eq [symmetric])
  have "c < 16"
    using assms unfolding c [symmetric] by simp
  then have "c mod 16 * 16 + b mod 16 = b"
    unfolding c_def by simp
  moreover have "b * 16 + a mod 16 = a"
    unfolding b_def by simp
  moreover have "a * 16 + n mod 16 = n"
    unfolding a_def by simp
  ultimately show ?thesis
    by (simp add: b c) (simp add: a_def [symmetric])
qed

lemma decode_uXXXX_format_04x:
  assumes "n < 0x10000"
  shows "decode_uXXXX (format_04x n @ s) = Some n"
proof -
  have "decode_uXXXX (format_04x n @ s) =
          Some (((n div 4096 mod 16 * 16 + n div 256 mod 16) * 16 + n div 16 mod 16) * 16
            + n mod 16)"
    by (simp add: format_04x_def hexvalue_hexdigit)
  then show ?thesis
    by (simp only: hex4_value [OF assms])
qed

lemma drop_format_04x: "drop 4 (format_04x n @ s) = s"
  by (simp add: format_04x_def)


lemma length_format_04x: "length (format_04x n) = 4"
  by (simp add: format_04x_def)

lemma escape_ascii_sub_Nil: "escape_ascii_sub [] = []"
  by (simp add: escape_ascii_sub_def)

lemma escape_ascii_sub_Cons:
  "escape_ascii_sub (c # cs) = (if ESCAPE_ASCII c then replace c else [c]) @ escape_ascii_sub cs"
  by (simp add: escape_ascii_sub_def)

lemma scan_plain:
  "\<not> ESCAPE_ASCII c \<Longrightarrow> scanstring chunks (c # t) = scanstring (chunks @ [c]) t"
  by (simp add: ESCAPE_ASCII_def)

lemma scan_short:
  "short_escape c \<Longrightarrow> scanstring chunks (replace c @ t) = scanstring (chunks @ [c]) t"
  by (auto simp: short_escape_def replace_def BACKSLASH_def)

lemma scan_u_bmp:
  assumes "\<not> short_escape c" and "c < 0x10000" and "\<not> high_surrogate c"
  shows "scanstring chunks (replace c @ t) = scanstring (chunks @ [c]) t"
proof -
  have r: "replace c = [92, 117] @ format_04x c"
    using assms(1,2) by (simp add: replace_def short_escape_def)
  show ?thesis
    using assms(3)
    by (auto simp: r decode_uXXXX_format_04x [OF assms(2)] length_format_04x
        high_surrogate_def)
qed

lemma scan_u_high:
  assumes "high_surrogate c" and "no_low_escape t"
  shows "scanstring chunks (replace c @ t) = scanstring (chunks @ [c]) t"
proof -
  have c: "c < 0x10000"
    using assms(1) by (simp add: high_surrogate_def)
  have r: "replace c = [92, 117] @ format_04x c"
    using assms(1) by (simp add: replace_def high_surrogate_def)
  show ?thesis
  proof (cases "take 2 t = [92, 117]")
    case True
    with assms(2) obtain u where "decode_uXXXX (drop 2 t) = Some u" and "\<not> low_surrogate u"
      by (auto simp: no_low_escape_def)
    then show ?thesis
      using True
      by (auto simp: r decode_uXXXX_format_04x [OF c] length_format_04x low_surrogate_def)
  next
    case False
    then show ?thesis
      by (simp add: r decode_uXXXX_format_04x [OF c] length_format_04x)
  qed
qed

lemma replace_pair:
  assumes "0x10000 \<le> c" and "c < 0x110000"
  obtains hi lo where "replace c = [92, 117] @ format_04x hi @ [92, 117] @ format_04x lo"
    and "high_surrogate hi" and "low_surrogate lo"
    and "0x10000 + ((hi - 0xd800) * 1024 + (lo - 0xdc00)) = c"
proof -
  define m where "m = c - 0x10000"
  have m: "m < 1024 * 1024" and c: "c = 0x10000 + m"
    using assms by (simp_all add: m_def)
  define hi where "hi = 0xd800 + m div 1024"
  define lo where "lo = 0xdc00 + m mod 1024"
  have small: "m div 1024 < 1024"
    using m by (simp add: less_mult_imp_div_less)
  then have "m div 1024 mod 1024 = m div 1024"
    by simp
  then have "replace c = [92, 117] @ format_04x hi @ [92, 117] @ format_04x lo"
    using assms(1) by (simp add: replace_def hi_def lo_def m_def)
  moreover have "high_surrogate hi"
    using small by (simp add: hi_def high_surrogate_def)
  moreover have "low_surrogate lo"
    by (simp add: lo_def low_surrogate_def)
  moreover have "0x10000 + ((hi - 0xd800) * 1024 + (lo - 0xdc00)) = c"
    by (simp add: hi_def lo_def c)
  ultimately show thesis
    by (rule that)
qed

lemma scan_u_pair:
  assumes "0x10000 \<le> c" and "c < 0x110000"
  shows "scanstring chunks (replace c @ t) = scanstring (chunks @ [c]) t"
proof -
  from assms obtain hi lo
    where "replace c = [92, 117] @ format_04x hi @ [92, 117] @ format_04x lo"
      and hi: "high_surrogate hi" and lo: "low_surrogate lo"
      and join: "0x10000 + ((hi - 0xd800) * 1024 + (lo - 0xdc00)) = c"
    by (rule replace_pair)
  then have r: "replace c @ t = 92 # 117 # (format_04x hi @ 92 # 117 # (format_04x lo @ t))"
    by simp
  have hi': "hi < 0x10000" and lo': "lo < 0x10000"
    using hi lo by (simp_all add: high_surrogate_def low_surrogate_def)
  show ?thesis
    using hi lo join
    by (simp add: r decode_uXXXX_format_04x [OF hi'] decode_uXXXX_format_04x [OF lo']
        length_format_04x high_surrogate_def low_surrogate_def)
qed

lemma scan_escaped_char:
  assumes "c < 0x110000" and "high_surrogate c \<longrightarrow> no_low_escape t"
  shows "scanstring chunks ((if ESCAPE_ASCII c then replace c else [c]) @ t)
           = scanstring (chunks @ [c]) t"
proof (cases "ESCAPE_ASCII c")
  case False
  then show ?thesis by (simp add: scan_plain del: scanstring.simps)
next
  case True
  consider "short_escape c" | "\<not> short_escape c" "c < 0x10000" "\<not> high_surrogate c"
    | "high_surrogate c" | "0x10000 \<le> c"
    by (meson not_le)
  then have "scanstring chunks (replace c @ t) = scanstring (chunks @ [c]) t"
  proof cases
    case 1
    then show ?thesis by (rule scan_short)
  next
    case 2
    then show ?thesis by (rule scan_u_bmp)
  next
    case 3
    with assms(2) show ?thesis by (simp add: scan_u_high)
  next
    case 4
    then show ?thesis using assms(1) by (rule scan_u_pair)
  qed
  with True show ?thesis by simp
qed

lemma no_low_escape_next:
  assumes "valid_str cs" and "cs = [] \<or> \<not> low_surrogate (hd cs)"
  shows "no_low_escape (escape_ascii_sub cs @ 34 # rest)"
proof (cases cs)
  case Nil
  then show ?thesis by (simp add: no_low_escape_def escape_ascii_sub_Nil)
next
  case (Cons c cs')
  with assms have c: "c < 0x110000" and nl: "\<not> low_surrogate c"
    by (simp_all add: valid_str_def)
  let ?t = "escape_ascii_sub cs' @ 34 # rest"
  consider "\<not> ESCAPE_ASCII c" | "short_escape c"
    | "ESCAPE_ASCII c" "\<not> short_escape c" "c < 0x10000" | "0x10000 \<le> c"
    by (meson not_le)
  then have "no_low_escape ((if ESCAPE_ASCII c then replace c else [c]) @ ?t)"
  proof cases
    case 1
    then show ?thesis by (auto simp: no_low_escape_def ESCAPE_ASCII_def)
  next
    case 2
    then show ?thesis
      by (auto simp: no_low_escape_def ESCAPE_ASCII_def short_escape_def replace_def)
  next
    case 3
    then have "replace c = [92, 117] @ format_04x c"
      by (simp add: replace_def short_escape_def)
    with 3 nl show ?thesis
      by (simp add: no_low_escape_def decode_uXXXX_format_04x)
  next
    case 4
    from 4 c obtain hi lo
      where r: "replace c = [92, 117] @ format_04x hi @ [92, 117] @ format_04x lo"
        and hi: "high_surrogate hi" and "low_surrogate lo"
        and "0x10000 + ((hi - 0xd800) * 1024 + (lo - 0xdc00)) = c"
      by (rule replace_pair)
    from hi have "hi < 0x10000" and "\<not> low_surrogate hi"
      by (simp_all add: high_surrogate_def low_surrogate_def)
    moreover have "ESCAPE_ASCII c"
      using 4 by (simp add: ESCAPE_ASCII_def)
    ultimately show ?thesis
      by (simp add: no_low_escape_def r decode_uXXXX_format_04x)
  qed
  then show ?thesis
    by (simp add: Cons escape_ascii_sub_Cons)
qed

lemma surrogate_pair_in_tail: "\<not> surrogate_pair_in (c # cs) \<Longrightarrow> \<not> surrogate_pair_in cs"
  by (cases cs) auto

lemma surrogate_pair_in_head:
  "\<not> surrogate_pair_in (c # cs) \<Longrightarrow> high_surrogate c \<Longrightarrow> cs = [] \<or> \<not> low_surrogate (hd cs)"
  by (cases cs) (auto simp: high_surrogate_def low_surrogate_def)

lemma scanstring_escaped:
  assumes "valid_str key" and "\<not> surrogate_pair_in key"
  shows "scanstring chunks (escape_ascii_sub key @ 34 # rest) = Inr (chunks @ key, rest)"
  using assms
proof (induction key arbitrary: chunks)
  case Nil
  show ?case by (simp add: escape_ascii_sub_Nil)
next
  case (Cons c cs)
  from Cons.prems(1) have c: "c < 0x110000" and cs: "valid_str cs"
    by (simp_all add: valid_str_def)
  from Cons.prems(2) have np: "\<not> surrogate_pair_in cs"
    by (rule surrogate_pair_in_tail)
  let ?t = "escape_ascii_sub cs @ 34 # rest"
  have "high_surrogate c \<longrightarrow> no_low_escape ?t"
    using cs surrogate_pair_in_head [OF Cons.prems(2)] by (simp add: no_low_escape_next)
  with c have "scanstring chunks ((if ESCAPE_ASCII c then replace c else [c]) @ ?t)
      = scanstring (chunks @ [c]) ?t"
    by (rule scan_escaped_char)
  also have "\<dots> = Inr ((chunks @ [c]) @ cs, rest)"
    using cs np by (rule Cons.IH)
  finally show ?case
    by (simp add: escape_ascii_sub_Cons)
qed

lemma scanstring_encode_basestring_ascii:
  assumes "valid_str key" and "\<not> surrogate_pair_in key"
  shows "scanstring [] (drop 1 (encode_basestring_ascii key) @ rest) = Inr (key, rest)"
  using scanstring_escaped [OF assms, of "[]" rest]
  by (simp add: encode_basestring_ascii_def)



section \<open>The number matcher on a written integer\<close>


















section \<open>The decoder on a written inventory\<close>






lemma iterencode_items_False_Cons:
  "iterencode_items False ((k, v) # items) =
     [44, 10, 32, 32, 32, 32, 34] @ escape_ascii_sub k @ [34, 58, 32] @ intstr v
     @ iterencode_items False items"
  by (simp add: encode_basestring_ascii_def)







section \<open>The scanner ends, and its errors\<close>





















section \<open>What the persistence functions do, case by case\<close>





section \<open>Evaluating the encoder and the decoder on a given text\<close>











section \<open>The claims\<close>

text \<open>
  C1. For a non-empty string \<open>item\<close> and an integer \<open>qty\<close> of any sign, \<open>add_item\<close>
  returns normally and \<open>get_qty\<close> afterwards gives the quantity stored before plus \<open>qty\<close>,
  an absent item counting as 0.
\<close>

theorem add_item_then_get_qty:
  assumes "name \<noteq> []" and "isinstance_int qty"
  shows "ending (add_item stock (PyStr name) qty) = Inr () \<and>
         get_qty (state (add_item stock (PyStr name) qty)) name
           = get_qty stock name + int_value qty"
  using assms
  by (simp add: add_item_def get_qty_def Let_def dict_getitem_map_of dict_get_map_of
      map_of_dict_setitem)

theorem add_item_then_get_qty_witness:
  "py ''apple'' \<noteq> [] \<and> isinstance_int (PyInt (- 3))
   \<and> get_qty [(py ''apple'', 10)] (py ''apple'') = 10
   \<and> get_qty (state (add_item [(py ''apple'', 10)] (PyStr (py ''apple'')) (PyInt (- 3))))
         (py ''apple'') = 7
   \<and> get_qty [(py ''apple'', 10)] (py ''banana'') = 0
   \<and> get_qty (state (add_item [(py ''apple'', 10)] (PyStr (py ''banana'')) (PyInt 4)))
         (py ''banana'') = 4"
  using add_item_then_get_qty [of "py ''apple''" "PyInt (- 3)" "[(py ''apple'', 10)]"]
    add_item_then_get_qty [of "py ''banana''" "PyInt 4" "[(py ''apple'', 10)]"]
  by (simp add: py_def get_qty_def)

text \<open>
  C2. For a dict that holds \<open>item\<close> and valid arguments, \<open>remove_item\<close> subtracts \<open>qty\<close>:
  when the new quantity is at most 0 the key is gone afterwards, otherwise the item stays
  with the new quantity.
\<close>

theorem remove_item_present:
  assumes "name \<noteq> []" and "isinstance_int qty" and "distinct (keys stock)"
    and "map_of stock name = Some old"
  shows "ending (remove_item stock (PyStr name) qty) = Inr () \<and>
         (if old - int_value qty \<le> 0
          then name \<notin> set (keys (state (remove_item stock (PyStr name) qty)))
          else map_of (state (remove_item stock (PyStr name) qty)) name
                 = Some (old - int_value qty))"
  using assms
  by (simp add: remove_item_def remove_item_try_found map_of_dict_setitem key_filtered_out)

theorem remove_item_present_witness:
  "py ''apple'' \<noteq> [] \<and> isinstance_int (PyInt 3) \<and> isinstance_int (PyInt 10)
   \<and> distinct (keys [(py ''apple'', 10 :: int), (py ''banana'', - 2)])
   \<and> map_of [(py ''apple'', 10 :: int), (py ''banana'', - 2)] (py ''apple'') = Some 10
   \<and> map_of (state (remove_item [(py ''apple'', 10), (py ''banana'', - 2)]
         (PyStr (py ''apple'')) (PyInt 3))) (py ''apple'') = Some 7
   \<and> py ''apple'' \<notin> set (keys (state (remove_item [(py ''apple'', 10), (py ''banana'', - 2)]
         (PyStr (py ''apple'')) (PyInt 10))))"
  using remove_item_present [of "py ''apple''" "PyInt 3"
      "[(py ''apple'', 10), (py ''banana'', - 2)]" 10]
    remove_item_present [of "py ''apple''" "PyInt 10"
      "[(py ''apple'', 10), (py ''banana'', - 2)]" 10]
  by (simp add: py_def keys_def)

text \<open>
  C3. For valid arguments and an \<open>item\<close> that is not a key, \<open>remove_item\<close> leaves the dict
  as it is and returns normally: the \<open>KeyError\<close> is caught, and the one log record is the
  warning.
\<close>

theorem remove_item_absent:
  assumes "name \<noteq> []" and "isinstance_int qty" and "name \<notin> set (keys stock)"
  shows "remove_item stock (PyStr name) qty =
           \<lparr>state = stock,
            logged = [LogRecord WARNING
              ''Attempted to remove '%s', but it is not in stock.'' [PyStr name]],
            ending = Inr ()\<rparr>"
  using assms
  by (simp add: remove_item_def remove_item_try_missing map_of_None_keys)

theorem remove_item_absent_witness:
  "py ''orange'' \<noteq> [] \<and> isinstance_int (PyInt 1)
   \<and> py ''orange'' \<notin> set (keys [(py ''apple'', 7 :: int), (py ''banana'', - 2)])
   \<and> remove_item [(py ''apple'', 7), (py ''banana'', - 2)] (PyStr (py ''orange'')) (PyInt 1) =
         \<lparr>state = [(py ''apple'', 7), (py ''banana'', - 2)],
          logged = [LogRecord WARNING
            ''Attempted to remove '%s', but it is not in stock.'' [PyStr (py ''orange'')]],
          ending = Inr ()\<rparr>"
  using remove_item_absent [of "py ''orange''" "PyInt 1"
      "[(py ''apple'', 7), (py ''banana'', - 2)]"]
  by (simp add: py_def keys_def)







text \<open>
  C6. \<open>check_low_items\<close> returns exactly the names whose quantity is strictly below the
  threshold, in the order of the dict; nothing for the empty dict; and the threshold of a
  call that gives none is 5.
\<close>

theorem check_low_items_exact:
  "check_low_items stock (Some threshold)
     = map fst (filter (\<lambda>(item, qty). qty < threshold) stock)
   \<and> check_low_items [] t = []
   \<and> check_low_items stock None = check_low_items stock (Some 5)"
  by (simp add: check_low_items_def check_low_items_loop_filter)

text \<open>
  C7. When \<open>item\<close> is not a non-empty string or \<open>qty\<close> is not an integer, \<open>add_item\<close>
  leaves the dict as it is, returns normally and makes one \<open>ERROR\<close> record, and
  \<open>remove_item\<close> does exactly the same.
\<close>

theorem invalid_arguments_noop:
  assumes "(\<nexists>name. item = PyStr name \<and> name \<noteq> []) \<or> \<not> isinstance_int qty"
  shows "state (add_item stock item qty) = stock
       \<and> ending (add_item stock item qty) = Inr ()
       \<and> (\<exists>msg args. logged (add_item stock item qty) = [LogRecord ERROR msg args])
       \<and> remove_item stock item qty = add_item stock item qty"
proof (cases "invalid_item item")
  case True
  then show ?thesis by (simp add: add_item_def remove_item_def)
next
  case False
  then obtain name where "item = PyStr name" and "name \<noteq> []"
    by (cases item) auto
  with assms have "\<not> isinstance_int qty" by blast
  with False show ?thesis by (simp add: add_item_def remove_item_def)
qed

theorem invalid_arguments_noop_witness:
  "(\<nexists>name. PyInt 123 = PyStr name \<and> name \<noteq> [])
   \<and> add_item [(py ''apple'', 10)] (PyInt 123) (PyStr (py ''ten'')) =
         \<lparr>state = [(py ''apple'', 10)],
          logged = [LogRecord ERROR
            ''Invalid item name: %s. Item must be a non-empty string.'' [PyInt 123]],
          ending = Inr ()\<rparr>
   \<and> remove_item [(py ''apple'', 10)] (PyInt 123) (PyStr (py ''ten''))
         = add_item [(py ''apple'', 10)] (PyInt 123) (PyStr (py ''ten''))
   \<and> \<not> isinstance_int (PyStr (py ''ten''))
   \<and> state (remove_item [(py ''apple'', 10)] (PyStr (py ''apple'')) (PyStr (py ''ten'')))
         = [(py ''apple'', 10)]"
  using invalid_arguments_noop [of "PyInt 123" "PyStr (py ''ten'')" "[(py ''apple'', 10)]"]
    invalid_arguments_noop [of "PyStr (py ''apple'')" "PyStr (py ''ten'')" "[(py ''apple'', 10)]"]
  by (simp add: py_def add_item_def)


text \<open>
  C9. After \<open>add_item\<close> or \<open>remove_item\<close>, with arguments of any kind, every key other
  than \<open>item\<close> is bound as before: present with the same quantity, or absent.
\<close>

theorem mutators_frame:
  assumes "item \<noteq> PyStr k"
  shows "map_of (state (add_item stock item qty)) k = map_of stock k
       \<and> map_of (state (remove_item stock item qty)) k = map_of stock k"
proof (cases item)
  case (PyStr name)
  with assms have neq: "k \<noteq> name" by auto
  have "map_of (state (add_item stock (PyStr name) qty)) k = map_of stock k"
    using neq
    by (simp add: add_item_def Let_def dict_getitem_map_of map_of_dict_setitem)
  moreover have "map_of (state (remove_item stock (PyStr name) qty)) k = map_of stock k"
    using remove_item_try_frame [OF neq, of stock qty]
    by (simp add: remove_item_def Let_def split: sum.splits exn.splits)
  ultimately show ?thesis by (simp add: PyStr)
qed (simp_all add: add_item_def remove_item_def)

theorem mutators_frame_witness:
  "PyStr (py ''apple'') \<noteq> PyStr (py ''banana'')
   \<and> map_of (state (add_item [(py ''apple'', 10), (py ''banana'', - 2)]
         (PyStr (py ''apple'')) (PyInt 5))) (py ''banana'') = Some (- 2)
   \<and> map_of (state (remove_item [(py ''apple'', 10), (py ''banana'', - 2)]
         (PyStr (py ''apple'')) (PyInt 10))) (py ''banana'') = Some (- 2)"
  using mutators_frame [of "PyStr (py ''apple'')" "py ''banana''"
      "[(py ''apple'', 10), (py ''banana'', - 2)]" "PyInt 5"]
    mutators_frame [of "PyStr (py ''apple'')" "py ''banana''"
      "[(py ''apple'', 10), (py ''banana'', - 2)]" "PyInt 10"]
  by (simp add: py_def)

text \<open>
  C10. After \<open>remove_item\<close> with valid arguments, \<open>item\<close> is never a key with a quantity of
  0 or less, whatever the sign of \<open>qty\<close>; in particular removing 0 of an item stored with
  a quantity of 0 or less deletes it.
\<close>

theorem remove_item_never_keeps_nonpositive:
  assumes "name \<noteq> []" and "isinstance_int qty" and "distinct (keys stock)"
  shows "(\<forall>q. map_of (state (remove_item stock (PyStr name) qty)) name = Some q \<longrightarrow> 0 < q)
       \<and> (\<forall>old. map_of stock name = Some old \<and> old \<le> 0 \<and> int_value qty = 0 \<longrightarrow>
            name \<notin> set (keys (state (remove_item stock (PyStr name) qty))))"
proof (cases "map_of stock name")
  case None
  with assms(1,2) show ?thesis
    by (simp add: remove_item_def remove_item_try_missing)
next
  case (Some old)
  with assms show ?thesis
    by (simp add: remove_item_def remove_item_try_found map_of_dict_setitem
        key_filtered_out map_of_filtered_out)
qed

theorem remove_item_never_keeps_nonpositive_witness:
  "py ''banana'' \<noteq> [] \<and> isinstance_int (PyInt 0)
   \<and> distinct (keys [(py ''apple'', 10 :: int), (py ''banana'', - 2)])
   \<and> map_of [(py ''apple'', 10 :: int), (py ''banana'', - 2)] (py ''banana'') = Some (- 2)
   \<and> int_value (PyInt 0) = 0
   \<and> py ''banana'' \<notin> set (keys (state (remove_item [(py ''apple'', 10), (py ''banana'', - 2)]
         (PyStr (py ''banana'')) (PyInt 0))))
   \<and> map_of (state (remove_item [(py ''apple'', 10), (py ''banana'', - 2)]
         (PyStr (py ''apple'')) (PyInt (- 1)))) (py ''apple'') = Some 11"
  using remove_item_never_keeps_nonpositive [of "py ''banana''" "PyInt 0"
      "[(py ''apple'', 10), (py ''banana'', - 2)]"]
    remove_item_never_keeps_nonpositive [of "py ''apple''" "PyInt (- 1)"
      "[(py ''apple'', 10), (py ''banana'', - 2)]"]
  by (simp add: py_def keys_def remove_item_def remove_item_try_def Let_def)

end
